theory Spec2Isabelle
  imports Main
begin

section \<open>Text: whitespace, case folding and the text normalizer\<close>

text \<open>
  Python strings are modelled as \<^typ>\<open>string\<close>; a character stands for a code point
  below 256. On that range \<open>str.isspace\<close>, \<open>str.strip\<close> and the regular expression
  class \<open>\s\<close> agree on the twelve characters listed in \<open>isspace\<close>, and a letter of a
  case-insensitive ASCII pattern matches exactly its two ASCII cases.
\<close>

definition isspace :: "char \<Rightarrow> bool" where
  "isspace c \<longleftrightarrow> c \<in> set [CHR 0x09, CHR 0x0A, CHR 0x0B, CHR 0x0C, CHR 0x0D,
     CHR 0x1C, CHR 0x1D, CHR 0x1E, CHR 0x1F, CHR 0x20, CHR 0x85, CHR 0xA0]"

text \<open>\<open>s.strip()\<close>\<close>

definition strip :: "string \<Rightarrow> string" where
  "strip s = rev (dropWhile isspace (rev (dropWhile isspace s)))"

definition lower :: "char \<Rightarrow> char" where
  "lower c = (case map_of (zip ''ABCDEFGHIJKLMNOPQRSTUVWXYZ'' ''abcdefghijklmnopqrstuvwxyz'') c of
                Some d \<Rightarrow> d | None \<Rightarrow> c)"

text \<open>\<open>re.sub(r'\s+', ' ', text)\<close>: every maximal run of whitespace becomes one space.\<close>

function collapse_ws :: "string \<Rightarrow> string" where
  "collapse_ws [] = []"
| "collapse_ws (c # cs) =
     (if isspace c then CHR '' '' # collapse_ws (dropWhile isspace cs)
      else c # collapse_ws cs)"
  by pat_completeness auto
termination
  by (relation "measure length") (auto simp: le_imp_less_Suc length_dropWhile_le)

text \<open>A literal pattern matched at the head of the text under \<open>re.I\<close>.\<close>

fun match_ci :: "string \<Rightarrow> string \<Rightarrow> bool" where
  "match_ci [] s = True"
| "match_ci (p # ps) [] = False"
| "match_ci (p # ps) (c # cs) = (lower c = lower p \<and> match_ci ps cs)"

definition boilerplate :: "string list" where
  "boilerplate = [''Accept all cookies'', ''Subscribe to newsletter'', ''Sign up'',
                  ''Login'', ''Register'']"

text \<open>
  \<open>re.sub(r'(Accept all cookies|Subscribe to newsletter|Sign up|Login|Register)', '', text,
  flags=re.I)\<close>: one scan from left to right; at each position the alternatives are tried
  in order, a match is deleted and the scan goes on behind it.
\<close>

function remove_boilerplate :: "string \<Rightarrow> string" where
  "remove_boilerplate [] = []"
| "remove_boilerplate (c # cs) =
     (case find (\<lambda>p. match_ci p (c # cs)) boilerplate of
        Some p \<Rightarrow> remove_boilerplate (drop (length p) (c # cs))
      | None \<Rightarrow> c # remove_boilerplate cs)"
  by pat_completeness auto
termination
proof (relation "measure length")
  fix c cs p
  assume "find (\<lambda>p. match_ci p (c # cs)) boilerplate = Some p"
  then have "p \<in> set boilerplate"
    by (auto simp: find_Some_iff)
  then have "0 < length p"
    by (auto simp: boilerplate_def)
  then show "(drop (length p) (c # cs), c # cs) \<in> measure length"
    by simp
qed simp_all

definition clean_text :: "string \<Rightarrow> string" where
  "clean_text text =
     (if text = [] then []
      else strip (remove_boilerplate (collapse_ws text)))"

text \<open>The spec's wording "contains a boilerplate phrase": some position of the text
  matches one of the alternatives.\<close>

fun has_boilerplate :: "string \<Rightarrow> bool" where
  "has_boilerplate [] = False"
| "has_boilerplate (c # cs) =
     (find (\<lambda>p. match_ci p (c # cs)) boilerplate \<noteq> None \<or> has_boilerplate cs)"

text \<open>A text whose whitespace is single spaces only.\<close>

fun is_collapsed :: "string \<Rightarrow> bool" where
  "is_collapsed [] = True"
| "is_collapsed [c] = (isspace c \<longrightarrow> c = CHR '' '')"
| "is_collapsed (c # d # s) =
     ((isspace c \<longrightarrow> c = CHR '' '' \<and> \<not> isspace d) \<and> is_collapsed (d # s))"

section \<open>Python values and dictionaries\<close>

datatype pyval =
    PNone
  | PBool bool
  | PNum int
  | PStr string
  | PList "pyval list"
  | PSet "pyval list"

text \<open>A \<open>dict\<close> keeps insertion order; \<open>PSet xs\<close> lists a set in its iteration order.\<close>

type_synonym pydict = "(string \<times> pyval) list"

fun truthy :: "pyval \<Rightarrow> bool" where
  "truthy PNone = False"
| "truthy (PBool b) = b"
| "truthy (PNum n) = (n \<noteq> 0)"
| "truthy (PStr s) = (s \<noteq> [])"
| "truthy (PList xs) = (xs \<noteq> [])"
| "truthy (PSet xs) = (xs \<noteq> [])"

text \<open>\<open>d.get(k)\<close>\<close>

definition dict_get :: "pydict \<Rightarrow> string \<Rightarrow> pyval" where
  "dict_get d k = (case map_of d k of Some v \<Rightarrow> v | None \<Rightarrow> PNone)"

text \<open>\<open>d[k] = v\<close>: an existing key keeps its place, a new key goes to the end.\<close>

fun dict_set :: "pydict \<Rightarrow> string \<Rightarrow> pyval \<Rightarrow> pydict" where
  "dict_set [] k v = [(k, v)]"
| "dict_set ((k', v') # d) k v = (if k' = k then (k, v) # d else (k', v') # dict_set d k v)"

definition opt_str :: "string option \<Rightarrow> pyval" where
  "opt_str x = (case x of None \<Rightarrow> PNone | Some s \<Rightarrow> PStr s)"

definition str_list :: "string list \<Rightarrow> pyval" where
  "str_list xs = PList (map PStr xs)"

text \<open>\<open>a or b\<close> on an optional string \<open>a\<close>.\<close>

definition or_else :: "string option \<Rightarrow> string \<Rightarrow> string" where
  "or_else a b = (case a of Some s \<Rightarrow> if s \<noteq> [] then s else b | None \<Rightarrow> b)"

fun join :: "string \<Rightarrow> string list \<Rightarrow> string" where
  "join sep [] = []"
| "join sep [x] = x"
| "join sep (x # y # ys) = x @ sep @ join sep (y # ys)"

text \<open>\<open>text[:500] + '...' if len(text) > 500 else text\<close>\<close>

definition summary_of :: "string \<Rightarrow> string" where
  "summary_of text = (if length text > 500 then take 500 text @ ''...'' else text)"

section \<open>Parsed documents\<close>

text \<open>
  A parsed page (the \<open>BeautifulSoup\<close> object) is the list of its top-level nodes; an
  element carries its tag name, its attributes with their values as written, and its
  children.
\<close>

datatype node = Text string | Elem string "(string \<times> string) list" "node list"

fun tag_name :: "node \<Rightarrow> string" where
  "tag_name (Text s) = []"
| "tag_name (Elem t a cs) = t"

text \<open>\<open>elem.get(k)\<close>\<close>

fun attr_get :: "node \<Rightarrow> string \<Rightarrow> string option" where
  "attr_get (Text s) k = None"
| "attr_get (Elem t a cs) k = map_of a k"

fun child_nodes :: "node \<Rightarrow> node list" where
  "child_nodes (Text s) = []"
| "child_nodes (Elem t a cs) = cs"

text \<open>The elements of a subtree in document order, the root first.\<close>

fun elements :: "node \<Rightarrow> node list" where
  "elements (Text s) = []"
| "elements (Elem t a cs) = Elem t a cs # concat (map elements cs)"

text \<open>
  The strings that \<open>.text\<close> and \<open>get_text\<close> read (bs4 from version 4.9 on): those inside
  a \<open>script\<close>, \<open>style\<close> or \<open>template\<close> element are left out. The code asks for the text
  of no such element itself.
\<close>

fun strings :: "node \<Rightarrow> string list" where
  "strings (Text s) = [s]"
| "strings (Elem t a cs) =
     (if t \<in> set [''script'', ''style'', ''template''] then [] else concat (map strings cs))"

text \<open>\<open>elem.text\<close>\<close>

definition text_of :: "node \<Rightarrow> string" where
  "text_of e = concat (strings e)"

text \<open>\<open>get_text(separator=sep, strip=True)\<close>: every string is stripped, the empty ones
  are dropped, the rest is joined.\<close>

definition stripped_strings :: "node list \<Rightarrow> string list" where
  "stripped_strings ns = filter (\<lambda>s. s \<noteq> []) (map strip (concat (map strings ns)))"

definition get_text :: "string \<Rightarrow> node list \<Rightarrow> string" where
  "get_text sep ns = join sep (stripped_strings ns)"

text \<open>\<open>for tag in soup(names): tag.decompose()\<close>\<close>

fun decompose :: "string list \<Rightarrow> node \<Rightarrow> node"
  and decompose_all :: "string list \<Rightarrow> node list \<Rightarrow> node list" where
  "decompose ts (Text s) = Text s"
| "decompose ts (Elem t a cs) = Elem t a (decompose_all ts cs)"
| "decompose_all ts [] = []"
| "decompose_all ts (c # cs) =
     (if tag_name c \<in> set ts then decompose_all ts cs
      else decompose ts c # decompose_all ts cs)"

subsection \<open>Selectors\<close>

text \<open>
  An attribute filter of \<open>find\<close>/\<open>find_all\<close> is a string (\<open>Equals\<close>), \<open>True\<close>
  (\<open>Present\<close>) or a compiled case-insensitive alternation of literal words (\<open>Search\<close>);
  \<open>Contains\<close> is the CSS operator \<open>*=\<close> of \<open>select\<close>. The values of \<open>class\<close> and
  \<open>rel\<close> are lists of whitespace-separated tokens: a filter matches such a value when it
  matches one token or the tokens joined by single spaces.
\<close>

datatype attr_match = Equals string | Present | Search "string list" | Contains string

datatype name_match = AnyTag | Named "string list"

type_synonym selector = "name_match \<times> (string \<times> attr_match) list"

function tokens :: "string \<Rightarrow> string list" where
  "tokens [] = []"
| "tokens (c # cs) =
     (if isspace c then tokens cs
      else takeWhile (\<lambda>x. \<not> isspace x) (c # cs) # tokens (dropWhile (\<lambda>x. \<not> isspace x) cs))"
  by pat_completeness auto
termination
  by (relation "measure length") (auto simp: le_imp_less_Suc length_dropWhile_le)

fun search_ci :: "string list \<Rightarrow> string \<Rightarrow> bool" where
  "search_ci alts [] = list_ex (\<lambda>p. match_ci p []) alts"
| "search_ci alts (c # cs) = (list_ex (\<lambda>p. match_ci p (c # cs)) alts \<or> search_ci alts cs)"

fun substring :: "string \<Rightarrow> string \<Rightarrow> bool" where
  "substring p [] = (p = [])"
| "substring p (c # cs) = (take (length p) (c # cs) = p \<or> substring p cs)"

fun value_matches :: "attr_match \<Rightarrow> string \<Rightarrow> bool" where
  "value_matches (Equals s) v = (v = s)"
| "value_matches Present v = True"
| "value_matches (Search alts) v = search_ci alts v"
| "value_matches (Contains s) v = substring s v"

definition multi_valued :: "string \<Rightarrow> bool" where
  "multi_valued k \<longleftrightarrow> k \<in> set [''class'', ''rel'']"

definition attr_matches :: "node \<Rightarrow> string \<times> attr_match \<Rightarrow> bool" where
  "attr_matches e km =
     (case attr_get e (fst km) of
        None \<Rightarrow> False
      | Some v \<Rightarrow>
          if multi_valued (fst km) \<and> snd km \<noteq> Present
          then list_ex (value_matches (snd km)) (tokens v)
               \<or> value_matches (snd km) (join '' '' (tokens v))
          else value_matches (snd km) v)"

fun name_matches :: "name_match \<Rightarrow> node \<Rightarrow> bool" where
  "name_matches AnyTag e = True"
| "name_matches (Named ns) e = (tag_name e \<in> set ns)"

definition selects :: "selector \<Rightarrow> node \<Rightarrow> bool" where
  "selects sel e \<longleftrightarrow> name_matches (fst sel) e \<and> list_all (attr_matches e) (snd sel)"

text \<open>\<open>soup.find_all\<close>, \<open>soup.find\<close> and \<open>elem.find_all\<close>\<close>

definition find_all :: "node list \<Rightarrow> selector \<Rightarrow> node list" where
  "find_all soup sel = filter (selects sel) (concat (map elements soup))"

definition find_first :: "node list \<Rightarrow> selector \<Rightarrow> node option" where
  "find_first soup sel = (case find_all soup sel of [] \<Rightarrow> None | e # _ \<Rightarrow> Some e)"

definition elem_find_all :: "node \<Rightarrow> string list \<Rightarrow> node list" where
  "elem_find_all e names = find_all (child_nodes e) (Named names, [])"

section \<open>Metadata Extractor\<close>

record metadata =
  title :: "string option"
  authors :: "string list"
  publish_date :: "string option"
  description :: "string option"
  keyword_list :: "string list"
  images :: "string option list"
  canonical_url :: "string option"
  site_name :: "string option"
  language :: "string option"

definition meta_property :: "string \<Rightarrow> selector" where
  "meta_property p = (Named [''meta''], [(''property'', Equals p)])"

definition meta_name :: "string \<Rightarrow> selector" where
  "meta_name n = (Named [''meta''], [(''name'', Equals n)])"

text \<open>\<open>elem.get('content') or elem.text.strip()\<close>\<close>

definition content_or_text :: "node \<Rightarrow> string" where
  "content_or_text e = or_else (attr_get e ''content'') (strip (text_of e))"

text \<open>The loop over \<open>title_candidates\<close>: the first candidate that is an element sets
  the title and ends the loop.\<close>

definition title_candidates :: "node list \<Rightarrow> node option list" where
  "title_candidates soup =
     [find_first soup (meta_property ''og:title''),
      find_first soup (meta_name ''twitter:title''),
      find_first soup (Named [''h1''], []),
      find_first soup (Named [''title''], [])]"

fun title_loop :: "node option list \<Rightarrow> string option" where
  "title_loop [] = None"
| "title_loop (Some candidate # cs) = Some (content_or_text candidate)"
| "title_loop (None # cs) = title_loop cs"

definition author_selectors :: "selector list" where
  "author_selectors =
     [(Named [''meta''], [(''name'', Equals ''author'')]),
      (Named [''meta''], [(''property'', Equals ''article:author'')]),
      (Named [''meta''], [(''name'', Equals ''article:author'')]),
      (Named [''span''], [(''class'', Search [''author'', ''byline''])]),
      (Named [''div''], [(''class'', Search [''author'', ''byline''])]),
      (Named [''a''], [(''rel'', Equals ''author'')]),
      (Named [''p''], [(''class'', Search [''author'', ''byline''])])]"

text \<open>The inner loop over the elements of one selector, then the loop over the
  selectors; \<open>acc\<close> is \<open>metadata['authors']\<close>.\<close>

fun add_authors :: "node list \<Rightarrow> string list \<Rightarrow> string list" where
  "add_authors [] acc = acc"
| "add_authors (elem # elems) acc =
     (let author = content_or_text elem
      in add_authors elems (if author \<noteq> [] \<and> author \<notin> set acc then acc @ [author] else acc))"

fun authors_loop :: "node list \<Rightarrow> selector list \<Rightarrow> string list \<Rightarrow> string list" where
  "authors_loop soup [] acc = acc"
| "authors_loop soup (sel # sels) acc = authors_loop soup sels (add_authors (find_all soup sel) acc)"

definition date_selectors :: "selector list" where
  "date_selectors =
     [(Named [''meta''], [(''property'', Equals ''article:published_time'')]),
      (Named [''meta''], [(''name'', Equals ''publish_date'')]),
      (Named [''meta''], [(''name'', Equals ''date'')]),
      (Named [''time''], [(''datetime'', Present)]),
      (Named [''span''], [(''class'', Search [''date'', ''published''])])]"

text \<open>\<open>elem.get('content') or elem.get('datetime') or elem.text.strip()\<close>\<close>

fun date_loop :: "node list \<Rightarrow> selector list \<Rightarrow> string option" where
  "date_loop soup [] = None"
| "date_loop soup (sel # sels) =
     (case find_first soup sel of
        Some elem \<Rightarrow>
          Some (or_else (attr_get elem ''content'')
                  (or_else (attr_get elem ''datetime'') (strip (text_of elem))))
      | None \<Rightarrow> date_loop soup sels)"

text \<open>\<open>s.split(',')\<close>\<close>

fun split_on :: "char \<Rightarrow> string \<Rightarrow> string list" where
  "split_on d [] = [[]]"
| "split_on d (c # cs) =
     (if c = d then [] # split_on d cs
      else (case split_on d cs of [] \<Rightarrow> [[c]] | w # ws \<Rightarrow> (c # w) # ws))"

definition extract_keywords :: "node list \<Rightarrow> string list" where
  "extract_keywords soup =
     (case find_first soup (meta_name ''keywords'') of
        None \<Rightarrow> []
      | Some keywords_meta \<Rightarrow>
          map strip (split_on CHR '','' (case attr_get keywords_meta ''content'' of
                                            None \<Rightarrow> [] | Some c \<Rightarrow> c)))"

text \<open>
  The image loop. \<open>urljoin\<close> is the library function of \<open>urllib.parse\<close>, a parameter of
  the model: it returns the joined address (\<open>Inr\<close>) or raises \<open>ValueError\<close> with a message
  (\<open>Inl\<close>), which ends \<open>extract_metadata\<close>. The elements come from
  \<open>find_all('img', src=True)\<close>, so \<open>img['src']\<close> is defined on each of them.
\<close>

fun add_images ::
  "(string \<Rightarrow> string \<Rightarrow> string + string) \<Rightarrow> string \<Rightarrow> node list \<Rightarrow> string option list
     \<Rightarrow> string + string option list"
where
  "add_images urljoin url [] acc = Inr acc"
| "add_images urljoin url (img # imgs) acc =
     (case attr_get img ''src'' of
        None \<Rightarrow> add_images urljoin url imgs acc
      | Some src \<Rightarrow>
          (case urljoin url src of
             Inl e \<Rightarrow> Inl e
           | Inr img_url \<Rightarrow>
               add_images urljoin url imgs
                 (if Some img_url \<notin> set acc then acc @ [Some img_url] else acc)))"

definition extract_images ::
  "(string \<Rightarrow> string \<Rightarrow> string + string) \<Rightarrow> node list \<Rightarrow> string
     \<Rightarrow> string + string option list" where
  "extract_images urljoin soup url =
     add_images urljoin url (take 10 (find_all soup (Named [''img''], [(''src'', Present)])))
       (case find_first soup (meta_property ''og:image'') of
          Some og_image \<Rightarrow> [attr_get og_image ''content'']
        | None \<Rightarrow> [])"

text \<open>\<open>Inl\<close> is the exception that leaves \<open>extract_metadata\<close>, \<open>Inr\<close> the dictionary it
  returns.\<close>

definition extract_metadata ::
  "(string \<Rightarrow> string \<Rightarrow> string + string) \<Rightarrow> node list \<Rightarrow> string \<Rightarrow> string + metadata" where
  "extract_metadata urljoin soup url =
     (case extract_images urljoin soup url of
        Inl e \<Rightarrow> Inl e
      | Inr image_list \<Rightarrow>
          Inr \<lparr> title = title_loop (title_candidates soup),
                authors = authors_loop soup author_selectors [],
                publish_date = date_loop soup date_selectors,
                description =
                  (case find_first soup (meta_name ''description'') of
                     Some desc \<Rightarrow> attr_get desc ''content''
                   | None \<Rightarrow>
                       (case find_first soup (meta_property ''og:description'') of
                          Some desc \<Rightarrow> attr_get desc ''content''
                        | None \<Rightarrow> None)),
                keyword_list = extract_keywords soup,
                images = image_list,
                canonical_url =
                  (case find_first soup (Named [''link''], [(''rel'', Equals ''canonical'')]) of
                     Some canonical \<Rightarrow> attr_get canonical ''href''
                   | None \<Rightarrow> Some url),
                site_name =
                  (case find_first soup (meta_property ''og:site_name'') of
                     Some e \<Rightarrow> attr_get e ''content''
                   | None \<Rightarrow> None),
                language =
                  (case find_first soup (Named [''html''], []) of
                     Some html_tag \<Rightarrow> attr_get html_tag ''lang''
                   | None \<Rightarrow> None) \<rparr>)"

section \<open>Table Extractor\<close>

definition extract_tables :: "node list \<Rightarrow> string list list list" where
  "extract_tables soup =
     filter (\<lambda>table_data. table_data \<noteq> [])
       (map (\<lambda>table.
              filter (\<lambda>row_data. row_data \<noteq> [])
                (map (\<lambda>row. map (\<lambda>cell. get_text [] [cell]) (elem_find_all row [''td'', ''th'']))
                     (elem_find_all table [''tr''])))
            (find_all soup (Named [''table''], [])))"

definition tables_val :: "string list list list \<Rightarrow> pyval" where
  "tables_val tables = PList (map (\<lambda>t. PList (map str_list t)) tables)"

section \<open>The outside world\<close>

text \<open>
  What the libraries and the network answer is an input of a run. A request either
  raises (\<open>RequestException\<close>) or yields a response with its status code and its body.
  Each call site has its own answer, since one run fetches the same address several
  times. A library call that can raise has its exception among its answers: \<open>None\<close>, or
  \<open>Inl\<close> with the message where the message is used.
\<close>

datatype http_outcome = RequestException | Response nat string

text \<open>The attributes of a parsed \<open>newspaper.Article\<close>; \<open>art_publish_date\<close> is the
  rendering \<open>str(article.publish_date)\<close> when there is a date.\<close>

record article =
  art_title :: pyval
  art_authors :: pyval
  art_publish_date :: "string option"
  art_text :: string
  art_top_image :: pyval
  art_images :: pyval
  art_keywords :: pyval
  art_summary :: pyval

record traf_meta =
  tm_title :: pyval
  tm_author :: pyval
  tm_date :: pyval
  tm_image :: pyval
  tm_tags :: pyval

text \<open>\<open>trafilatura\<close>: an exception, no download, or a download with the extracted text
  and metadata (each possibly \<open>None\<close>).\<close>

datatype traf_outcome =
    TrafRaises
  | TrafNoDownload
  | TrafDownloaded "string option" "traf_meta option"

text \<open>
  \<open>html_parser\<close> is \<open>BeautifulSoup(markup, 'html.parser')\<close>, \<open>readability_summary\<close> is
  \<open>Document(content).summary()\<close> and \<open>selenium_page\<close> the \<open>page_source\<close> of the browser
  session; \<open>urlparse\<close> answers with the scheme and the network location.
\<close>

record world =
  newspaper :: "string \<Rightarrow> article option"
  trafilatura :: "string \<Rightarrow> traf_outcome"
  readability_get :: "string \<Rightarrow> http_outcome"
  readability_summary :: "string \<Rightarrow> string option"
  readability_short_title :: "string \<Rightarrow> string option"
  bs_get :: "nat \<Rightarrow> string \<Rightarrow> http_outcome"
  selenium_page :: "string \<Rightarrow> string option"
  raw_get :: "string \<Rightarrow> http_outcome"
  html_parser :: "string \<Rightarrow> node list option"
  urljoin :: "string \<Rightarrow> string \<Rightarrow> string + string"
  urlparse :: "string \<Rightarrow> string + string \<times> string"
  scrape_time :: pyval
  utcnow :: string

section \<open>Strategy Implementations\<close>

text \<open>\<open>metadata['images'][0] if metadata['images'] else None\<close>\<close>

definition top_image :: "metadata \<Rightarrow> pyval" where
  "top_image m = (case images m of [] \<Rightarrow> PNone | x # _ \<Rightarrow> opt_str x)"

definition images_val :: "metadata \<Rightarrow> pyval" where
  "images_val m = PList (map opt_str (images m))"

subsection \<open>Strategy 1: newspaper3k\<close>

definition scrape_with_newspaper :: "world \<Rightarrow> string \<Rightarrow> pydict option" where
  "scrape_with_newspaper w url =
     (case newspaper w url of
        None \<Rightarrow> None
      | Some article \<Rightarrow>
          if art_text article \<noteq> [] \<and> length (art_text article) > 100
          then Some
            [(''method'', PStr ''newspaper3k''),
             (''title'', art_title article),
             (''authors'', art_authors article),
             (''publish_date'', opt_str (art_publish_date article)),
             (''text'', PStr (clean_text (art_text article))),
             (''top_image'', art_top_image article),
             (''images'', art_images article),
             (''keywords'', art_keywords article),
             (''summary'', art_summary article),
             (''source'', PStr url),
             (''success'', PBool True)]
          else None)"

subsection \<open>Strategy 2: trafilatura\<close>

definition scrape_with_trafilatura :: "world \<Rightarrow> string \<Rightarrow> pydict option" where
  "scrape_with_trafilatura w url =
     (case trafilatura w url of
        TrafRaises \<Rightarrow> None
      | TrafNoDownload \<Rightarrow> None
      | TrafDownloaded None metadata \<Rightarrow> None
      | TrafDownloaded (Some text) metadata \<Rightarrow>
          if text \<noteq> [] \<and> length text > 100
          then Some
            [(''method'', PStr ''trafilatura''),
             (''title'', (case metadata of Some m \<Rightarrow> tm_title m | None \<Rightarrow> PNone)),
             (''authors'',
                (case metadata of
                   Some m \<Rightarrow> if truthy (tm_author m) then PList [tm_author m] else PList []
                 | None \<Rightarrow> PList [])),
             (''publish_date'', (case metadata of Some m \<Rightarrow> tm_date m | None \<Rightarrow> PNone)),
             (''text'', PStr (clean_text text)),
             (''top_image'', (case metadata of Some m \<Rightarrow> tm_image m | None \<Rightarrow> PNone)),
             (''images'', PList []),
             (''keywords'', (case metadata of Some m \<Rightarrow> tm_tags m | None \<Rightarrow> PList [])),
             (''summary'', PStr (summary_of text)),
             (''source'', PStr url),
             (''success'', PBool True)]
          else None)"

subsection \<open>Strategy 3: readability\<close>

text \<open>\<open>metadata['title'] or doc.short_title()\<close>\<close>

definition title_or_short_title :: "world \<Rightarrow> string \<Rightarrow> metadata \<Rightarrow> string option" where
  "title_or_short_title w content metadata =
     (case title metadata of
        Some t \<Rightarrow> if t \<noteq> [] then Some t else readability_short_title w content
      | None \<Rightarrow> readability_short_title w content)"

definition readability_result ::
  "world \<Rightarrow> string \<Rightarrow> string \<Rightarrow> node list \<Rightarrow> node list \<Rightarrow> pydict option" where
  "readability_result w url content soup original_soup =
     (let text = get_text '' '' soup
      in case extract_metadata (urljoin w) original_soup url of
           Inl e \<Rightarrow> None
         | Inr metadata \<Rightarrow>
             if text \<noteq> [] \<and> length text > 100
             then (case title_or_short_title w content metadata of
                     None \<Rightarrow> None
                   | Some t \<Rightarrow> Some
                       [(''method'', PStr ''readability''),
                        (''title'', PStr t),
                        (''authors'', str_list (authors metadata)),
                        (''publish_date'', opt_str (publish_date metadata)),
                        (''text'', PStr (clean_text text)),
                        (''top_image'', top_image metadata),
                        (''images'', images_val metadata),
                        (''keywords'', str_list (keyword_list metadata)),
                        (''summary'', PStr (summary_of text)),
                        (''source'', PStr url),
                        (''success'', PBool True)])
             else None)"

definition scrape_with_readability :: "world \<Rightarrow> string \<Rightarrow> pydict option" where
  "scrape_with_readability w url =
     (case readability_get w url of
        RequestException \<Rightarrow> None
      | Response status content \<Rightarrow>
          (case readability_summary w content of
             None \<Rightarrow> None
           | Some summary \<Rightarrow>
               (case html_parser w summary of
                  None \<Rightarrow> None
                | Some soup \<Rightarrow>
                    (case html_parser w content of
                       None \<Rightarrow> None
                     | Some original_soup \<Rightarrow>
                         readability_result w url content soup original_soup))))"

subsection \<open>Strategy 4: BeautifulSoup\<close>

text \<open>\<open>response.raise_for_status()\<close> raises on the client and server error codes.\<close>

definition raise_for_status :: "nat \<Rightarrow> bool" where
  "raise_for_status status \<longleftrightarrow> 400 \<le> status \<and> status < 600"

text \<open>The loop \<open>for attempt in range(3)\<close>: \<open>None\<close> is the exception raised again at the
  third failure.\<close>

fun fetch_attempts :: "world \<Rightarrow> string \<Rightarrow> nat list \<Rightarrow> string option" where
  "fetch_attempts w url [] = None"
| "fetch_attempts w url (attempt # rest) =
     (case bs_get w attempt url of
        RequestException \<Rightarrow> if attempt = 2 then None else fetch_attempts w url rest
      | Response status content \<Rightarrow>
          if raise_for_status status
          then (if attempt = 2 then None else fetch_attempts w url rest)
          else Some content)"

definition bs_content_selectors :: "selector list" where
  \<open>bs_content_selectors =
     [(Named [''article''], []),
      (Named [''div''],
         [(''class'', Search [''article'', ''content'', ''post'', ''entry'', ''main'', ''story''])]),
      (Named [''div''],
         [(''id'', Search [''article'', ''content'', ''post'', ''entry'', ''main'', ''story''])]),
      (Named [''main''], []),
      (Named [''section''], [(''class'', Search [''article'', ''content''])]),
      (Named [''[role="main"]''], []),
      (Named [''div''], [(''itemprop'', Equals ''articleBody'')])]\<close>

text \<open>The three nested loops that fill \<open>text_content\<close>.\<close>

definition paragraph_texts :: "string list \<Rightarrow> node \<Rightarrow> string list" where
  "paragraph_texts names elem =
     filter (\<lambda>p_text. length p_text > 20) (map (\<lambda>p. get_text [] [p]) (elem_find_all elem names))"

definition text_content :: "selector list \<Rightarrow> string list \<Rightarrow> node list \<Rightarrow> string list" where
  "text_content sels names soup =
     concat (map (\<lambda>sel. concat (map (paragraph_texts names) (find_all soup sel))) sels)"

function show_nat :: "nat \<Rightarrow> string" where
  "show_nat n =
     (if n < 10 then [''0123456789'' ! n]
      else show_nat (n div 10) @ [''0123456789'' ! (n mod 10)])"
  by pat_completeness auto
termination
  by (relation "measure id") auto

definition table_text :: "string list list list \<Rightarrow> string" where
  "table_text tables =
     [CHR 0x0A, CHR 0x0A] @ ''Tables:'' @ [CHR 0x0A] @
     concat (map (\<lambda>(i, table).
                    [CHR 0x0A] @ ''Table '' @ show_nat (i + 1) @ '':'' @ [CHR 0x0A] @
                    concat (map (\<lambda>row. join '' | '' row @ [CHR 0x0A]) table))
                 (enumerate 0 tables))"

text \<open>The body text of strategies 4 and 5: the joined fragments, the rendered tables,
  and all visible text instead when that is shorter than 200 characters.\<close>

definition page_text ::
  "selector list \<Rightarrow> string list \<Rightarrow> node list \<Rightarrow> string list list list \<Rightarrow> string" where
  "page_text sels names soup tables =
     (let text = join '' '' (text_content sels names soup);
          text = (if tables \<noteq> [] then text @ table_text tables else text)
      in if length text < 200 then get_text '' '' soup else text)"

definition bs_unwanted :: "string list" where
  "bs_unwanted = [''script'', ''style'', ''nav'', ''footer'', ''header'', ''aside'', ''iframe'',
                  ''noscript'']"

definition bs_paragraphs :: "string list" where
  "bs_paragraphs = [''p'', ''h1'', ''h2'', ''h3'', ''h4'', ''h5'', ''h6'', ''li'']"

definition bs_result :: "world \<Rightarrow> string \<Rightarrow> node list \<Rightarrow> pydict option" where
  "bs_result w url page =
     (let soup = decompose_all bs_unwanted page
      in case extract_metadata (urljoin w) soup url of
           Inl e \<Rightarrow> None
         | Inr metadata \<Rightarrow>
             (let tables = extract_tables soup;
                  text = page_text bs_content_selectors bs_paragraphs soup tables
              in if text \<noteq> [] \<and> length text > 50
                 then Some
                   [(''method'', PStr ''beautifulsoup''),
                    (''title'', opt_str (title metadata)),
                    (''authors'', str_list (authors metadata)),
                    (''publish_date'', opt_str (publish_date metadata)),
                    (''text'', PStr (clean_text text)),
                    (''top_image'', top_image metadata),
                    (''images'', images_val metadata),
                    (''keywords'', str_list (keyword_list metadata)),
                    (''summary'', PStr (summary_of text)),
                    (''tables'', tables_val tables),
                    (''description'', opt_str (description metadata)),
                    (''source'', PStr url),
                    (''success'', PBool True)]
                 else None))"

definition scrape_with_beautifulsoup :: "world \<Rightarrow> string \<Rightarrow> pydict option" where
  "scrape_with_beautifulsoup w url =
     (case fetch_attempts w url [0, 1, 2] of
        None \<Rightarrow> None
      | Some content \<Rightarrow>
          (case html_parser w content of
             None \<Rightarrow> None
           | Some page \<Rightarrow> bs_result w url page))"

subsection \<open>Strategy 5: Selenium\<close>

definition selenium_content_selectors :: "selector list" where
  "selenium_content_selectors =
     [(Named [''article''], []),
      (AnyTag, [(''role'', Equals ''main'')]),
      (Named [''div''], [(''class'', Contains ''article'')]),
      (Named [''div''], [(''class'', Contains ''content'')]),
      (Named [''div''], [(''class'', Contains ''post'')]),
      (Named [''main''], [])]"

definition selenium_unwanted :: "string list" where
  "selenium_unwanted = [''script'', ''style'', ''nav'', ''footer'', ''header'', ''aside'', ''iframe'']"

definition selenium_paragraphs :: "string list" where
  "selenium_paragraphs = [''p'', ''h1'', ''h2'', ''h3'', ''h4'', ''h5'', ''li'']"

definition selenium_result :: "world \<Rightarrow> string \<Rightarrow> node list \<Rightarrow> pydict option" where
  "selenium_result w url page =
     (let soup = decompose_all selenium_unwanted page
      in case extract_metadata (urljoin w) soup url of
           Inl e \<Rightarrow> None
         | Inr metadata \<Rightarrow>
             (let tables = extract_tables soup;
                  text = page_text selenium_content_selectors selenium_paragraphs soup tables
              in if text \<noteq> [] \<and> length text > 50
                 then Some
                   [(''method'', PStr ''selenium''),
                    (''title'', opt_str (title metadata)),
                    (''authors'', str_list (authors metadata)),
                    (''publish_date'', opt_str (publish_date metadata)),
                    (''text'', PStr (clean_text text)),
                    (''top_image'', top_image metadata),
                    (''images'', images_val metadata),
                    (''keywords'', str_list (keyword_list metadata)),
                    (''summary'', PStr (summary_of text)),
                    (''tables'', tables_val tables),
                    (''source'', PStr url),
                    (''success'', PBool True)]
                 else None))"

definition scrape_with_selenium :: "world \<Rightarrow> string \<Rightarrow> pydict option" where
  "scrape_with_selenium w url =
     (case selenium_page w url of
        None \<Rightarrow> None
      | Some page_source \<Rightarrow>
          (case html_parser w page_source of
             None \<Rightarrow> None
           | Some page \<Rightarrow> selenium_result w url page))"

subsection \<open>Strategy 6: raw\<close>

text \<open>Every exception inside the \<open>try\<close> of a strategy, from the fetch, the parser or
  \<open>extract_metadata\<close>, ends in \<open>return None\<close>.\<close>

definition raw_result :: "world \<Rightarrow> string \<Rightarrow> node list \<Rightarrow> pydict option" where
  "raw_result w url page =
     (let soup = decompose_all [''script'', ''style''] page
      in case extract_metadata (urljoin w) soup url of
           Inl e \<Rightarrow> None
         | Inr metadata \<Rightarrow>
             (let text = get_text '' '' soup;
                  tables = extract_tables soup
              in Some
                [(''method'', PStr ''raw''),
                 (''title'', PStr (or_else (title metadata) ''Unknown Title'')),
                 (''authors'',
                    str_list (if authors metadata \<noteq> [] then authors metadata else [''Unknown''])),
                 (''publish_date'', opt_str (publish_date metadata)),
                 (''text'', PStr (clean_text text)),
                 (''top_image'', top_image metadata),
                 (''images'', images_val metadata),
                 (''keywords'', str_list (keyword_list metadata)),
                 (''summary'', PStr (summary_of text)),
                 (''tables'', tables_val tables),
                 (''source'', PStr url),
                 (''success'', PBool True)]))"

definition scrape_raw :: "world \<Rightarrow> string \<Rightarrow> pydict option" where
  "scrape_raw w url =
     (case raw_get w url of
        RequestException \<Rightarrow> None
      | Response status content \<Rightarrow>
          (case html_parser w content of
             None \<Rightarrow> None
           | Some page \<Rightarrow> raw_result w url page))"

section \<open>Pipeline Orchestrator and the \<open>/scrape\<close> handler\<close>

datatype strategy = Newspaper | Trafilatura | Readability | BeautifulSoup | Selenium | Raw

fun run_strategy :: "strategy \<Rightarrow> world \<Rightarrow> string \<Rightarrow> pydict option" where
  "run_strategy Newspaper = scrape_with_newspaper"
| "run_strategy Trafilatura = scrape_with_trafilatura"
| "run_strategy Readability = scrape_with_readability"
| "run_strategy BeautifulSoup = scrape_with_beautifulsoup"
| "run_strategy Selenium = scrape_with_selenium"
| "run_strategy Raw = scrape_raw"

definition strategies :: "strategy list" where
  "strategies = [Newspaper, Trafilatura, Readability, BeautifulSoup, Selenium, Raw]"

text \<open>
  The text a strategy extracts (\<open>article.text\<close> for strategy 1, the variable \<open>text\<close> for
  the others), \<open>None\<close> when the download or the parser fails before; and the test the
  strategy applies to it; strategy 6 applies none.
\<close>

fun extracted_text :: "strategy \<Rightarrow> world \<Rightarrow> string \<Rightarrow> string option" where
  "extracted_text Newspaper w url = map_option art_text (newspaper w url)"
| "extracted_text Trafilatura w url =
     (case trafilatura w url of TrafDownloaded text metadata \<Rightarrow> text | _ \<Rightarrow> None)"
| "extracted_text Readability w url =
     (case readability_get w url of
        RequestException \<Rightarrow> None
      | Response status content \<Rightarrow>
          (case readability_summary w content of
             None \<Rightarrow> None
           | Some summary \<Rightarrow> map_option (get_text '' '') (html_parser w summary)))"
| "extracted_text BeautifulSoup w url =
     (case fetch_attempts w url [0, 1, 2] of
        None \<Rightarrow> None
      | Some content \<Rightarrow>
          map_option
            (\<lambda>page. let soup = decompose_all bs_unwanted page
                    in page_text bs_content_selectors bs_paragraphs soup (extract_tables soup))
            (html_parser w content))"
| "extracted_text Selenium w url =
     (case selenium_page w url of
        None \<Rightarrow> None
      | Some page_source \<Rightarrow>
          map_option
            (\<lambda>page. let soup = decompose_all selenium_unwanted page
                    in page_text selenium_content_selectors selenium_paragraphs soup
                         (extract_tables soup))
            (html_parser w page_source))"
| "extracted_text Raw w url =
     (case raw_get w url of
        RequestException \<Rightarrow> None
      | Response status content \<Rightarrow>
          map_option (\<lambda>page. get_text '' '' (decompose_all [''script'', ''style''] page))
            (html_parser w content))"

fun length_test :: "strategy \<Rightarrow> string \<Rightarrow> bool" where
  "length_test Newspaper text = (text \<noteq> [] \<and> length text > 100)"
| "length_test Trafilatura text = (text \<noteq> [] \<and> length text > 100)"
| "length_test Readability text = (text \<noteq> [] \<and> length text > 100)"
| "length_test BeautifulSoup text = (text \<noteq> [] \<and> length text > 50)"
| "length_test Selenium text = (text \<noteq> [] \<and> length text > 50)"
| "length_test Raw text = True"

text \<open>\<open>result and result.get('success')\<close>\<close>

definition accepted :: "pydict option \<Rightarrow> bool" where
  "accepted r = (case r of None \<Rightarrow> False | Some d \<Rightarrow> d \<noteq> [] \<and> truthy (dict_get d ''success''))"

text \<open>
  The loop over the strategies. \<open>result\<close> is the variable of that name; \<open>invoked\<close>
  records, in order, the strategies that were called.
\<close>

fun strategy_loop ::
  "world \<Rightarrow> string \<Rightarrow> strategy list \<Rightarrow> pydict option \<Rightarrow> strategy list
     \<Rightarrow> pydict option \<times> strategy list" where
  "strategy_loop w url [] result invoked = (result, invoked)"
| "strategy_loop w url (s # ss) result invoked =
     (let r = run_strategy s w url
      in if accepted r then (r, invoked @ [s])
         else strategy_loop w url ss r (invoked @ [s]))"

fun has_set :: "pyval \<Rightarrow> bool" where
  "has_set (PSet xs) = True"
| "has_set (PList xs) = list_ex has_set xs"
| "has_set v = False"

text \<open>\<open>jsonify\<close> raises \<open>TypeError\<close> on a value that holds a set.\<close>

definition jsonify :: "pydict \<Rightarrow> string + pydict" where
  "jsonify d =
     (if list_ex (\<lambda>kv. has_set (snd kv)) d
      then Inl ''Object of type set is not JSON serializable''
      else Inr d)"

text \<open>
  The loop \<open>for key, value in result.items()\<close> with \<open>return jsonify(result)\<close> in its
  body: the first item is examined and the function returns. The source writes the loop
  one level to the left of the statements before it; it is read here as the end of the
  success path, inside the handler's \<open>try\<close>, whose \<open>except\<close> clause answers 500 with the
  message of the exception.
\<close>

definition convert_sets :: "pydict \<Rightarrow> string + pydict" where
  "convert_sets result =
     (case result of
        [] \<Rightarrow> Inl ''The view function did not return a valid response''
      | (key, v) # rest \<Rightarrow>
          jsonify (case v of PSet xs \<Rightarrow> dict_set result key (PList xs) | _ \<Rightarrow> result))"

text \<open>
  A reply is the status code and the JSON body; with it the handler reports the
  strategies it invoked. \<open>url_param\<close> is the \<open>url\<close> parameter, \<open>None\<close> when missing. An
  exception of \<open>urlparse\<close> or \<open>jsonify\<close> reaches the handler's \<open>except\<close> clause, which
  answers 500 with the message of the exception.
\<close>

definition scrape :: "world \<Rightarrow> string option \<Rightarrow> (nat \<times> pydict) \<times> strategy list" where
  "scrape w url_param =
     (case url_param of
        None \<Rightarrow> ((400, [(''error'', PStr ''URL parameter is required''), (''success'', PBool False)]), [])
      | Some url \<Rightarrow>
          if url = []
          then ((400, [(''error'', PStr ''URL parameter is required''), (''success'', PBool False)]), [])
          else
            (case urlparse w url of
               Inl msg \<Rightarrow> ((500, [(''error'', PStr msg), (''success'', PBool False)]), [])
             | Inr (scheme, netloc) \<Rightarrow>
                 if scheme = [] \<or> netloc = []
                 then ((400, [(''error'', PStr ''Invalid URL format''),
                              (''success'', PBool False)]), [])
                 else
                   (case strategy_loop w url strategies None [] of
                      (None, invoked) \<Rightarrow>
                        ((500, [(''error'', PStr ''All scraping methods failed''),
                                (''success'', PBool False), (''url'', PStr url)]), invoked)
                    | (Some result, invoked) \<Rightarrow>
                        if result = []
                        then ((500, [(''error'', PStr ''All scraping methods failed''),
                                     (''success'', PBool False), (''url'', PStr url)]), invoked)
                        else
                          (case convert_sets
                                  (dict_set (dict_set result ''scrape_time'' (scrape_time w))
                                     ''timestamp'' (PStr (utcnow w))) of
                             Inr body \<Rightarrow> ((200, body), invoked)
                           | Inl msg \<Rightarrow>
                               ((500, [(''error'', PStr msg), (''success'', PBool False)]),
                                invoked)))))"

section \<open>Example pages and worlds\<close>

definition story :: string where
  "story = ''The council voted on Tuesday to rebuild the old bridge, ending a debate that ran for more than ten years.''"

text \<open>The page of the story, and the summary \<open>readability\<close> makes of it.\<close>

definition story_html :: string where
  "story_html =
     ''<html lang=en><head><title>Bridge to be rebuilt</title></head><body><p>'' @ story
       @ ''</p></body></html>''"

definition story_page :: "node list" where
  "story_page =
     [Elem ''html'' [(''lang'', ''en'')]
        [Elem ''head'' [] [Elem ''title'' [] [Text ''Bridge to be rebuilt'']],
         Elem ''body'' [] [Elem ''p'' [] [Text story]]]]"

definition story_summary_html :: string where
  "story_summary_html = ''<html><body><div><p>'' @ story @ ''</p></div></body></html>''"

definition story_summary_page :: "node list" where
  "story_summary_page =
     [Elem ''html'' [] [Elem ''body'' [] [Elem ''div'' [] [Elem ''p'' [] [Text story]]]]]"

text \<open>A short page behind a registration prompt.\<close>

definition teaser_html :: string where
  "teaser_html =
     ''<html><body><p>Please Register to continue reading this short article..</p></body></html>''"

definition teaser_page :: "node list" where
  "teaser_page =
     [Elem ''html'' []
        [Elem ''body'' []
           [Elem ''p'' [] [Text ''Please Register to continue reading this short article..'']]]]"

text \<open>A page without any metadata.\<close>

definition bare_html :: string where
  "bare_html = ''<html><body>hello</body></html>''"

definition bare_page :: "node list" where
  "bare_page = [Elem ''html'' [] [Elem ''body'' [] [Text ''hello'']]]"

text \<open>An error page, served with status 404, and its summary.\<close>

definition not_found_text :: string where
  "not_found_text = ''The page you asked for does not exist on this server. Check the address or go back to the start page.''"

definition not_found_html :: string where
  "not_found_html =
     ''<html><head><title>404 Not Found</title></head><body><p>'' @ not_found_text
       @ ''</p></body></html>''"

definition not_found_page :: "node list" where
  "not_found_page =
     [Elem ''html'' []
        [Elem ''head'' [] [Elem ''title'' [] [Text ''404 Not Found'']],
         Elem ''body'' [] [Elem ''p'' [] [Text not_found_text]]]]"

definition not_found_summary_html :: string where
  "not_found_summary_html = ''<html><body><div><p>'' @ not_found_text @ ''</p></div></body></html>''"

definition not_found_summary_page :: "node list" where
  "not_found_summary_page =
     [Elem ''html'' [] [Elem ''body'' [] [Elem ''div'' [] [Elem ''p'' [] [Text not_found_text]]]]]"

text \<open>A page with an image whose address has an opening bracket and no closing one.\<close>

definition broken_image_html :: string where
  "broken_image_html = ''<html><body><p>hello</p><img src=http://[::1></body></html>''"

definition broken_image_page :: "node list" where
  "broken_image_page =
     [Elem ''html'' []
        [Elem ''body'' []
           [Elem ''p'' [] [Text ''hello''], Elem ''img'' [(''src'', ''http://[::1'')] []]]]"

text \<open>The trees \<open>html.parser\<close> builds from the example pages; the empty document has no
  nodes.\<close>

definition example_parser :: "string \<Rightarrow> node list option" where
  "example_parser =
     map_of
       [([], []),
        (story_html, story_page),
        (story_summary_html, story_summary_page),
        (teaser_html, teaser_page),
        (bare_html, bare_page),
        (not_found_html, not_found_page),
        (not_found_summary_html, not_found_summary_page),
        (broken_image_html, broken_image_page)]"

text \<open>
  The answers of \<open>urllib.parse\<close> on the addresses of the examples. \<open>urljoin\<close> with the
  base \<open>https://ex.com/article\<close>: a reference that starts with one slash is resolved
  against the base, an absolute reference is returned as it is, and \<open>http://[::1\<close> raises
  \<open>ValueError\<close>. \<open>urlparse\<close>: \<open>https://ex.com/article\<close> has a scheme and a network
  location, \<open>not-a-url\<close> and the empty string have neither, and \<open>//[\<close> raises
  \<open>ValueError\<close>.
\<close>

definition example_urljoin :: "string \<Rightarrow> string \<Rightarrow> string + string" where
  "example_urljoin base ref =
     (if ref = ''http://[::1'' then Inl ''Invalid IPv6 URL''
      else if take 1 ref = ''/'' then Inr (''https://ex.com'' @ ref)
      else Inr ref)"

definition example_urlparse :: "string \<Rightarrow> string + string \<times> string" where
  "example_urlparse url =
     (if url = ''//['' then Inl ''Invalid IPv6 URL''
      else if url = ''https://ex.com/article'' then Inr (''https'', ''ex.com'')
      else Inr ([], []))"

text \<open>A world in which every download fails.\<close>

definition offline :: world where
  "offline =
     \<lparr> newspaper = (\<lambda>url. None),
       trafilatura = (\<lambda>url. TrafRaises),
       readability_get = (\<lambda>url. RequestException),
       readability_summary = (\<lambda>content. None),
       readability_short_title = (\<lambda>content. None),
       bs_get = (\<lambda>attempt url. RequestException),
       selenium_page = (\<lambda>url. None),
       raw_get = (\<lambda>url. RequestException),
       html_parser = example_parser,
       urljoin = example_urljoin,
       urlparse = example_urlparse,
       scrape_time = PNum 2,
       utcnow = ''2024-05-01T12:00:00'' \<rparr>"

text \<open>An article as \<open>newspaper3k\<close> delivers it: \<open>article.images\<close> is a set.\<close>

definition example_article :: article where
  "example_article =
     \<lparr> art_title = PStr ''Bridge to be rebuilt'',
       art_authors = PList [PStr ''A. Writer''],
       art_publish_date = None,
       art_text = story,
       art_top_image = PStr ''https://ex.com/pics/a.jpg'',
       art_images = PSet [PStr ''https://ex.com/pics/a.jpg''],
       art_keywords = PList [],
       art_summary = PStr [] \<rparr>"

text \<open>The same article with its images as a list.\<close>

definition listed_article :: article where
  "listed_article = example_article \<lparr> art_images := PList [PStr ''https://ex.com/pics/a.jpg''] \<rparr>"

text \<open>A world in which \<open>newspaper3k\<close> and \<open>readability\<close> both extract the story.\<close>

definition news_world :: world where
  "news_world =
     offline \<lparr> newspaper := (\<lambda>url. Some example_article),
               readability_get := (\<lambda>url. Response 200 story_html),
               readability_summary := (\<lambda>content. Some story_summary_html),
               readability_short_title := (\<lambda>content. Some ''Bridge to be rebuilt'') \<rparr>"

definition listed_world :: world where
  "listed_world = news_world \<lparr> newspaper := (\<lambda>url. Some listed_article) \<rparr>"


definition teaser_world :: world where
  "teaser_world = offline \<lparr> bs_get := (\<lambda>attempt url. Response 200 teaser_html) \<rparr>"

definition bare_world :: world where
  "bare_world = offline \<lparr> raw_get := (\<lambda>url. Response 200 bare_html) \<rparr>"

definition not_found_world :: world where
  "not_found_world =
     offline \<lparr> readability_get := (\<lambda>url. Response 404 not_found_html),
               readability_summary := (\<lambda>content. Some not_found_summary_html),
               readability_short_title := (\<lambda>content. Some ''404 Not Found''),
               bs_get := (\<lambda>attempt url. Response 404 not_found_html),
               raw_get := (\<lambda>url. Response 404 not_found_html) \<rparr>"

text \<open>A world that answers the raw fetch with an empty page, one that answers it with
  the page of the broken image address, and one in which the parser rejects the page.\<close>

definition blank_world :: world where
  "blank_world = offline \<lparr> raw_get := (\<lambda>url. Response 200 []) \<rparr>"


definition rejecting_world :: world where
  "rejecting_world = bare_world \<lparr> html_parser := (\<lambda>markup. None) \<rparr>"

text \<open>Pages for the Metadata Extractor.\<close>

definition empty_og_title_page :: "node list" where
  "empty_og_title_page =
     [Elem ''html'' []
        [Elem ''head'' []
           [Elem ''meta'' [(''property'', ''og:title''), (''content'', [])] [],
            Elem ''title'' [] [Text ''Site'']],
         Elem ''body'' [] [Elem ''h1'' [] [Text ''Real headline'']]]]"

definition repeated_keywords_page :: "node list" where
  "repeated_keywords_page =
     [Elem ''html'' []
        [Elem ''head'' [] [Elem ''meta'' [(''name'', ''keywords''), (''content'', ''news, news'')] []],
         Elem ''body'' [] []]]"

definition relative_og_image_page :: "node list" where
  "relative_og_image_page =
     [Elem ''html'' []
        [Elem ''head'' [] [Elem ''meta'' [(''property'', ''og:image''), (''content'', ''/pics/og.jpg'')] []],
         Elem ''body'' [] [Elem ''img'' [(''src'', ''/pics/a.jpg'')] []]]]"

text \<open>\<open>bool(urlparse(s).scheme)\<close> for the entries of \<open>images\<close> in the examples: a
  scheme is a letter followed by letters, digits, \<open>+\<close>, \<open>-\<close> or \<open>.\<close> up to the first
  colon.\<close>

definition scheme_chars :: string where
  "scheme_chars = ''abcdefghijklmnopqrstuvwxyzABCDEFGHIJKLMNOPQRSTUVWXYZ0123456789+-.''"

definition has_scheme :: "string \<Rightarrow> bool" where
  "has_scheme s \<longleftrightarrow>
     (let pre = takeWhile (\<lambda>c. c \<noteq> CHR '':'') s
      in pre \<noteq> [] \<and> length pre < length s
         \<and> hd pre \<in> set (take 52 scheme_chars) \<and> list_all (\<lambda>c. c \<in> set scheme_chars) pre)"

section \<open>Properties of the Text Normalizer\<close>

subsection \<open>The normalized text is never longer than its input\<close>

lemma length_collapse_ws: "length (collapse_ws s) \<le> length s"
proof (induction s rule: collapse_ws.induct)
  case 1
  then show ?case by simp
next
  case (2 c cs)
  have "length (dropWhile isspace cs) \<le> length cs" by (rule length_dropWhile_le)
  with 2 show ?case by (cases "isspace c") auto
qed

lemma length_remove_boilerplate: "length (remove_boilerplate s) \<le> length s"
proof (induction s rule: remove_boilerplate.induct)
  case 1
  then show ?case by simp
next
  case (2 c cs)
  show ?case
  proof (cases "find (\<lambda>p. match_ci p (c # cs)) boilerplate")
    case None
    with 2 show ?thesis by simp
  next
    case (Some p)
    with 2 have "length (remove_boilerplate (drop (length p) (c # cs))) \<le> length (drop (length p) (c # cs))"
      by simp
    also have "\<dots> \<le> length (c # cs)" by simp
    finally show ?thesis using Some by simp
  qed
qed

lemma length_strip: "length (strip s) \<le> length s"
proof -
  have "length (strip s) = length (dropWhile isspace (rev (dropWhile isspace s)))"
    by (simp add: strip_def)
  also have "\<dots> \<le> length (rev (dropWhile isspace s))" by (rule length_dropWhile_le)
  also have "\<dots> \<le> length s" by (simp add: length_dropWhile_le)
  finally show ?thesis .
qed

lemma length_clean_text: "length (clean_text t) \<le> length t"
proof (cases "t = []")
  case True
  then show ?thesis by (simp add: clean_text_def)
next
  case False
  have "length (strip (remove_boilerplate (collapse_ws t))) \<le> length (remove_boilerplate (collapse_ws t))"
    by (rule length_strip)
  also have "\<dots> \<le> length (collapse_ws t)" by (rule length_remove_boilerplate)
  also have "\<dots> \<le> length t" by (rule length_collapse_ws)
  finally show ?thesis using False by (simp add: clean_text_def)
qed

subsection \<open>Idempotence\<close>

text \<open>
  Deleting a phrase can bring the two sides of the gap together: \<open>Please Login here\<close>
  becomes \<open>Please  here\<close> with two spaces, which a second pass collapses. So the
  normalizer is not idempotent on every string.
\<close>

theorem clean_text_not_idempotent:
  "clean_text ''Please Login here'' = ''Please  here''
   \<and> clean_text (clean_text ''Please Login here'') = ''Please here''
   \<and> clean_text (clean_text ''Please Login here'') \<noteq> clean_text ''Please Login here''"
  by code_simp

lemma remove_boilerplate_id: "\<not> has_boilerplate s \<Longrightarrow> remove_boilerplate s = s"
  by (induction s) auto

lemma match_ci_append: "match_ci p s \<Longrightarrow> match_ci p (s @ t)"
  by (induction p s rule: match_ci.induct) auto

lemma find_match_append:
  "find (\<lambda>p. match_ci p s) ps \<noteq> None \<Longrightarrow> find (\<lambda>p. match_ci p (s @ t)) ps \<noteq> None"
  unfolding find_None_iff by (blast intro: match_ci_append)

lemma has_boilerplate_appendI1: "has_boilerplate a \<Longrightarrow> has_boilerplate (a @ b)"
proof (induction a)
  case Nil
  then show ?case by simp
next
  case (Cons c a)
  then show ?case
    using find_match_append [of "c # a" boilerplate b] by auto
qed

lemma has_boilerplate_appendI2: "has_boilerplate b \<Longrightarrow> has_boilerplate (a @ b)"
  by (induction a) auto

lemma has_boilerplate_dropWhile: "\<not> has_boilerplate s \<Longrightarrow> \<not> has_boilerplate (dropWhile P s)"
  using has_boilerplate_appendI2 [of "dropWhile P s" "takeWhile P s"] by auto

lemma strip_prefix_suffix:
  "dropWhile isspace s = strip s @ rev (takeWhile isspace (rev (dropWhile isspace s)))"
proof -
  let ?u = "dropWhile isspace s"
  have "rev (takeWhile isspace (rev ?u) @ dropWhile isspace (rev ?u)) = ?u"
    by (simp only: takeWhile_dropWhile_id rev_rev_ident)
  then show ?thesis
    by (simp only: rev_append strip_def)
qed

lemma has_boilerplate_strip: "\<not> has_boilerplate s \<Longrightarrow> \<not> has_boilerplate (strip s)"
  using has_boilerplate_dropWhile [of s isspace] strip_prefix_suffix [of s]
    has_boilerplate_appendI1 [of "strip s"] by metis

lemma dropWhile_hd: "dropWhile P s = d # t \<Longrightarrow> \<not> P d"
  using hd_dropWhile [of P s] by auto

lemma is_collapsed_collapse_ws: "is_collapsed (collapse_ws s)"
proof (induction s rule: collapse_ws.induct)
  case 1
  then show ?case by simp
next
  case (2 c cs)
  show ?case
  proof (cases "isspace c")
    case True
    with 2 have ih: "is_collapsed (collapse_ws (dropWhile isspace cs))" by simp
    show ?thesis
    proof (cases "dropWhile isspace cs")
      case Nil
      then have "collapse_ws (dropWhile isspace cs) = []"
        by (simp only: collapse_ws.simps)
      with True have "collapse_ws (c # cs) = [CHR '' '']"
        by (simp only: collapse_ws.simps if_True)
      then show ?thesis by simp
    next
      case (Cons d t)
      then have "\<not> isspace d" by (rule dropWhile_hd)
      with True Cons ih show ?thesis by simp
    qed
  next
    case False
    with 2 have ih: "is_collapsed (collapse_ws cs)" by simp
    with False show ?thesis by (cases "collapse_ws cs") simp_all
  qed
qed

lemma collapse_ws_fixed: "is_collapsed s \<Longrightarrow> collapse_ws s = s"
  by (induction s rule: is_collapsed.induct) auto

lemma is_collapsed_tl: "is_collapsed (c # s) \<Longrightarrow> is_collapsed s"
  by (cases s) auto

lemma is_collapsed_suffix: "is_collapsed (a @ b) \<Longrightarrow> is_collapsed b"
  by (induction a) (auto dest: is_collapsed_tl)

lemma is_collapsed_prefix: "is_collapsed (a @ b) \<Longrightarrow> is_collapsed a"
proof (induction a rule: is_collapsed.induct)
  case 1
  then show ?case by simp
next
  case (2 c)
  then show ?case by (cases b) auto
next
  case (3 c d s)
  then show ?case by auto
qed

lemma is_collapsed_strip: "is_collapsed s \<Longrightarrow> is_collapsed (strip s)"
proof -
  assume "is_collapsed s"
  then have "is_collapsed (takeWhile isspace s @ dropWhile isspace s)" by simp
  then have "is_collapsed (dropWhile isspace s)" by (rule is_collapsed_suffix)
  then have "is_collapsed (strip s @ rev (takeWhile isspace (rev (dropWhile isspace s))))"
    using strip_prefix_suffix [of s] by simp
  then show ?thesis by (rule is_collapsed_prefix)
qed

lemma dropWhile_id: "s = [] \<or> \<not> P (hd s) \<Longrightarrow> dropWhile P s = s"
  by (cases s) auto

lemma strip_strip: "strip (strip s) = strip s"
proof (cases "strip s = []")
  case True
  have "strip [] = []" by (simp add: strip_def)
  with True show ?thesis by simp
next
  case False
  let ?u = "dropWhile isspace s"
  let ?r = "dropWhile isspace (rev ?u)"
  have t: "strip s = rev ?r" by (simp add: strip_def)
  with False have r: "?r \<noteq> []" by simp
  then have last_ok: "\<not> isspace (hd ?r)" by (rule hd_dropWhile)
  from False have u: "?u \<noteq> []"
    by (metis strip_def dropWhile.simps(1) rev.simps(1))
  then have "\<not> isspace (hd ?u)" by (rule hd_dropWhile)
  moreover have "hd (strip s) = hd ?u"
    using strip_prefix_suffix [of s] False by (metis hd_append2)
  ultimately have "dropWhile isspace (strip s) = strip s"
    by (simp add: dropWhile_id)
  moreover have "dropWhile isspace (rev (strip s)) = rev (strip s)"
    using last_ok t by (simp add: dropWhile_id)
  ultimately show ?thesis by (simp add: strip_def)
qed


text \<open>
  C6, as amended: on every string whose whitespace-collapsed form contains no boilerplate
  phrase (in any letter case), the Text Normalizer is idempotent:
  \<open>normalize(normalize(x)) == normalize(x)\<close>.
\<close>

theorem clean_text_idempotent_without_boilerplate:
  assumes "\<not> has_boilerplate (collapse_ws x)"
  shows "clean_text (clean_text x) = clean_text x"
proof (cases "x = []")
  case True
  then show ?thesis by (simp add: clean_text_def)
next
  case False
  let ?y = "strip (collapse_ws x)"
  from assms have cx: "clean_text x = ?y"
    using False by (simp add: clean_text_def remove_boilerplate_id)
  have "is_collapsed ?y"
    by (rule is_collapsed_strip) (rule is_collapsed_collapse_ws)
  then have "collapse_ws ?y = ?y" by (rule collapse_ws_fixed)
  moreover have "\<not> has_boilerplate ?y"
    using assms by (rule has_boilerplate_strip)
  ultimately have "clean_text ?y = ?y"
    by (simp add: clean_text_def remove_boilerplate_id strip_strip)
  with cx show ?thesis by simp
qed

theorem clean_text_idempotent_without_boilerplate_witness:
  "\<not> has_boilerplate (collapse_ws ''  Hello   world '')
   \<and> clean_text (clean_text ''  Hello   world '') = clean_text ''  Hello   world ''
   \<and> clean_text ''  Hello   world '' = ''Hello world''"
proof -
  have h: "\<not> has_boilerplate (collapse_ws ''  Hello   world '')" by code_simp
  have v: "clean_text ''  Hello   world '' = ''Hello world''" by code_simp
  from h v clean_text_idempotent_without_boilerplate [OF h] show ?thesis by simp
qed

section \<open>Properties of the Metadata Extractor\<close>

subsection \<open>Title\<close>

text \<open>
  The title loop stops at the first selector that finds an element, whatever that
  element yields: an \<open>og:title\<close> meta with an empty \<open>content\<close> gives the title \<open>''\<close>
  although the \<open>h1\<close> of the page has the text \<open>Real headline\<close>.
\<close>

theorem empty_og_title_stops_search:
  "map_option content_or_text (find_first empty_og_title_page (meta_property ''og:title'')) = Some []
   \<and> map_option content_or_text (find_first empty_og_title_page (Named [''h1''], []))
       = Some ''Real headline''
   \<and> map_sum id title (extract_metadata example_urljoin empty_og_title_page ''https://ex.com/article'')
       = Inr (Some [])"
  by code_simp

lemma extract_metadata_title:
  "extract_metadata uj soup url = Inr m \<Longrightarrow> title m = title_loop (title_candidates soup)"
  by (auto simp: extract_metadata_def split: sum.splits)

text \<open>
  C10, as amended: the Metadata Extractor tries the \<open>og:title\<close> meta, the
  \<open>twitter:title\<close> meta, the first \<open>h1\<close> and \<open>title\<close> in this order and stops at the first
  selector that matches an element; the stored title is that element's \<open>content\<close>
  attribute when it is non-empty and its stripped text otherwise (which can be empty),
  and it is null exactly when no selector matches an element.
\<close>

theorem title_from_first_matching_selector:
  assumes "extract_metadata uj soup url = Inr m"
  shows
  "(find_first soup (meta_property ''og:title'') = Some e
      \<longrightarrow> title m = Some (content_or_text e))
   \<and> (find_first soup (meta_property ''og:title'') = None
      \<and> find_first soup (meta_name ''twitter:title'') = Some e
      \<longrightarrow> title m = Some (content_or_text e))
   \<and> (find_first soup (meta_property ''og:title'') = None
      \<and> find_first soup (meta_name ''twitter:title'') = None
      \<and> find_first soup (Named [''h1''], []) = Some e
      \<longrightarrow> title m = Some (content_or_text e))
   \<and> (find_first soup (meta_property ''og:title'') = None
      \<and> find_first soup (meta_name ''twitter:title'') = None
      \<and> find_first soup (Named [''h1''], []) = None
      \<and> find_first soup (Named [''title''], []) = Some e
      \<longrightarrow> title m = Some (content_or_text e))
   \<and> (title m = None
      \<longleftrightarrow> find_first soup (meta_property ''og:title'') = None
        \<and> find_first soup (meta_name ''twitter:title'') = None
        \<and> find_first soup (Named [''h1''], []) = None
        \<and> find_first soup (Named [''title''], []) = None)"
  unfolding extract_metadata_title [OF assms]
  by (cases "find_first soup (meta_property ''og:title'')";
      cases "find_first soup (meta_name ''twitter:title'')";
      cases "find_first soup (Named [''h1''], [])";
      cases "find_first soup (Named [''title''], [])")
     (simp_all add: title_candidates_def)

theorem title_from_first_matching_selector_witness:
  "find_first story_page (meta_property ''og:title'') = None
   \<and> find_first story_page (meta_name ''twitter:title'') = None
   \<and> find_first story_page (Named [''h1''], []) = None
   \<and> find_first story_page (Named [''title''], [])
       = Some (Elem ''title'' [] [Text ''Bridge to be rebuilt''])
   \<and> title (projr (extract_metadata example_urljoin story_page ''https://ex.com/article''))
       = Some ''Bridge to be rebuilt''
   \<and> title (projr (extract_metadata example_urljoin bare_page ''https://ex.com/article'')) = None"
proof -
  let ?url = "''https://ex.com/article''"
  have ms: "extract_metadata example_urljoin story_page ?url
              = Inr (projr (extract_metadata example_urljoin story_page ?url))" by code_simp
  have mb: "extract_metadata example_urljoin bare_page ?url
              = Inr (projr (extract_metadata example_urljoin bare_page ?url))" by code_simp
  have a: "find_first story_page (meta_property ''og:title'') = None" by code_simp
  have b: "find_first story_page (meta_name ''twitter:title'') = None" by code_simp
  have c: "find_first story_page (Named [''h1''], []) = None" by code_simp
  have d: "find_first story_page (Named [''title''], [])
             = Some (Elem ''title'' [] [Text ''Bridge to be rebuilt''])" by code_simp
  have e: "content_or_text (Elem ''title'' [] [Text ''Bridge to be rebuilt'']) = ''Bridge to be rebuilt''"
    by code_simp
  have a': "find_first bare_page (meta_property ''og:title'') = None" by code_simp
  have b': "find_first bare_page (meta_name ''twitter:title'') = None" by code_simp
  have c': "find_first bare_page (Named [''h1''], []) = None" by code_simp
  have d': "find_first bare_page (Named [''title''], []) = None" by code_simp
  from title_from_first_matching_selector
         [OF ms, of "Elem ''title'' [] [Text ''Bridge to be rebuilt'']"]
       title_from_first_matching_selector
         [OF mb, of "Elem ''title'' [] [Text ''Bridge to be rebuilt'']"]
       a b c d e a' b' c' d'
  show ?thesis by simp
qed

subsection \<open>Duplicates\<close>

lemma add_authors_distinct: "distinct acc \<Longrightarrow> distinct (add_authors elems acc)"
  by (induction elems arbitrary: acc) (simp_all add: Let_def)

lemma authors_loop_distinct: "distinct acc \<Longrightarrow> distinct (authors_loop soup sels acc)"
  by (induction sels arbitrary: acc) (simp_all add: add_authors_distinct)

lemma add_images_distinct:
  "distinct acc \<Longrightarrow> add_images uj url imgs acc = Inr image_list \<Longrightarrow> distinct image_list"
proof (induction imgs arbitrary: acc)
  case Nil
  then show ?case by simp
next
  case (Cons img imgs)
  show ?case
  proof (cases "attr_get img ''src''")
    case None
    with Cons show ?thesis by simp
  next
    case (Some src)
    show ?thesis
    proof (cases "uj url src")
      case (Inl e)
      with Some Cons.prems show ?thesis by simp
    next
      case (Inr img_url)
      let ?acc = "if Some img_url \<notin> set acc then acc @ [Some img_url] else acc"
      from Cons.prems(1) have "distinct ?acc" by simp
      moreover from Some Inr Cons.prems(2) have "add_images uj url imgs ?acc = Inr image_list"
        by simp
      ultimately show ?thesis by (rule Cons.IH)
    qed
  qed
qed

text \<open>
  The keywords are the comma-separated entries of the \<open>keywords\<close> meta, each stripped,
  with nothing removed: \<open>content="news, news"\<close> gives the same keyword twice.
\<close>

theorem repeated_keywords_kept:
  "map_sum id keyword_list
       (extract_metadata example_urljoin repeated_keywords_page ''https://ex.com/article'')
     = Inr [''news'', ''news'']
   \<and> \<not> distinct [''news'', ''news'' :: string]"
  by code_simp

text \<open>
  C7, as amended: for every input document and page URL, the \<open>authors\<close> and \<open>images\<close>
  sequences produced by the Metadata Extractor contain no duplicate entries by exact
  equality, no matter how many selectors match. (The \<open>keywords\<close> sequence can.)
\<close>

theorem authors_and_images_distinct:
  assumes "extract_metadata uj soup url = Inr m"
  shows "distinct (authors m) \<and> distinct (images m)"
proof
  from assms have "authors m = authors_loop soup author_selectors []"
    by (auto simp: extract_metadata_def split: sum.splits)
  then show "distinct (authors m)"
    by (simp add: authors_loop_distinct)
  from assms have "extract_images uj soup url = Inr (images m)"
    by (auto simp: extract_metadata_def split: sum.splits)
  then show "distinct (images m)"
    unfolding extract_images_def
    by (rule add_images_distinct [rotated]) (simp split: option.splits)
qed

theorem authors_and_images_distinct_witness:
  "map_sum id images
       (extract_metadata example_urljoin relative_og_image_page ''https://ex.com/article'')
     = Inr [Some ''/pics/og.jpg'', Some ''https://ex.com/pics/a.jpg'']
   \<and> distinct (authors (projr
         (extract_metadata example_urljoin relative_og_image_page ''https://ex.com/article'')))
   \<and> distinct (images (projr
         (extract_metadata example_urljoin relative_og_image_page ''https://ex.com/article'')))"
proof -
  let ?url = "''https://ex.com/article''"
  have m: "extract_metadata example_urljoin relative_og_image_page ?url
             = Inr (projr (extract_metadata example_urljoin relative_og_image_page ?url))"
    by code_simp
  have i: "map_sum id images (extract_metadata example_urljoin relative_og_image_page ?url)
             = Inr [Some ''/pics/og.jpg'', Some ''https://ex.com/pics/a.jpg'']"
    by code_simp
  from authors_and_images_distinct [OF m] i show ?thesis by simp
qed

subsection \<open>Image addresses\<close>

text \<open>
  C8: every entry of \<open>images\<close> should be an absolute URL. The \<open>src\<close> of an \<open>img\<close> is
  resolved with \<open>urljoin\<close>; the \<open>content\<close> of the \<open>og:image\<close> meta is appended as it is.
  On the page \<open>https://ex.com/article\<close> with
  \<open><meta property="og:image" content="/pics/og.jpg">\<close> and \<open><img src="/pics/a.jpg">\<close>
  the first entry stays relative, the second is resolved.
\<close>

theorem og_image_not_resolved:
  "map_sum id images
       (extract_metadata example_urljoin relative_og_image_page ''https://ex.com/article'')
     = Inr [Some ''/pics/og.jpg'', Some ''https://ex.com/pics/a.jpg'']
   \<and> \<not> has_scheme ''/pics/og.jpg''
   \<and> has_scheme ''https://ex.com/pics/a.jpg''"
  by code_simp

section \<open>Properties of the strategies\<close>

subsection \<open>The stored text\<close>

lemma newspaper_text:
  "scrape_with_newspaper w url = Some d \<Longrightarrow>
   \<exists>raw. extracted_text Newspaper w url = Some raw \<and> length_test Newspaper raw
        \<and> dict_get d ''text'' = PStr (clean_text raw)"
  by (auto simp: scrape_with_newspaper_def dict_get_def split: option.splits if_splits)

lemma trafilatura_text:
  "scrape_with_trafilatura w url = Some d \<Longrightarrow>
   \<exists>raw. extracted_text Trafilatura w url = Some raw \<and> length_test Trafilatura raw
        \<and> dict_get d ''text'' = PStr (clean_text raw)"
  by (auto simp: scrape_with_trafilatura_def dict_get_def
        split: traf_outcome.splits option.splits if_splits)

lemma readability_text:
  "scrape_with_readability w url = Some d \<Longrightarrow>
   \<exists>raw. extracted_text Readability w url = Some raw \<and> length_test Readability raw
        \<and> dict_get d ''text'' = PStr (clean_text raw)"
  by (auto simp: scrape_with_readability_def readability_result_def Let_def dict_get_def
        split: http_outcome.splits option.splits sum.splits if_splits)

lemma beautifulsoup_text:
  "scrape_with_beautifulsoup w url = Some d \<Longrightarrow>
   \<exists>raw. extracted_text BeautifulSoup w url = Some raw \<and> length_test BeautifulSoup raw
        \<and> dict_get d ''text'' = PStr (clean_text raw)"
  by (auto simp: scrape_with_beautifulsoup_def bs_result_def Let_def dict_get_def
        split: option.splits sum.splits if_splits)

lemma selenium_text:
  "scrape_with_selenium w url = Some d \<Longrightarrow>
   \<exists>raw. extracted_text Selenium w url = Some raw \<and> length_test Selenium raw
        \<and> dict_get d ''text'' = PStr (clean_text raw)"
  by (auto simp: scrape_with_selenium_def selenium_result_def Let_def dict_get_def
        split: option.splits sum.splits if_splits)

lemma raw_text:
  "scrape_raw w url = Some d \<Longrightarrow>
   \<exists>raw. extracted_text Raw w url = Some raw \<and> length_test Raw raw
        \<and> dict_get d ''text'' = PStr (clean_text raw)"
  by (auto simp: scrape_raw_def raw_result_def Let_def dict_get_def
        split: http_outcome.splits option.splits sum.splits)

text \<open>
  The length test reads the text before it is normalized, and the result stores the
  normalized text. Strategy 4 accepts a page whose visible text has 56 characters; the
  stored text, with \<open>Register\<close> removed, has 48. Strategy 6 stores the empty text of an
  empty page.
\<close>

theorem normalized_text_below_minimum:
  "accepted (scrape_with_beautifulsoup teaser_world ''https://ex.com/article'')
   \<and> dict_get (the (scrape_with_beautifulsoup teaser_world ''https://ex.com/article'')) ''text''
       = PStr ''Please  to continue reading this short article..''
   \<and> \<not> 50 < length ''Please  to continue reading this short article..''"
  by code_simp

lemma raw_text_may_be_empty:
  "accepted (scrape_raw blank_world ''https://ex.com/article'')
   \<and> dict_get (the (scrape_raw blank_world ''https://ex.com/article'')) ''text'' = PStr []"
  by code_simp

text \<open>
  C2, as amended: for every result a strategy returns, the text the strategy extracted
  passed that strategy's length test before normalization (non-empty and longer than 100
  characters for strategies 1, 2 and 3, non-empty and longer than 50 characters for
  strategies 4 and 5, no test for strategy 6), the stored \<open>text\<close> field is the
  normalization of that extracted text, and it is never longer than the extracted text.
\<close>

theorem stored_text_is_normalized_extracted_text:
  assumes "run_strategy s w url = Some d"
  shows "\<exists>raw. extracted_text s w url = Some raw
              \<and> length_test s raw
              \<and> dict_get d ''text'' = PStr (clean_text raw)
              \<and> length (clean_text raw) \<le> length raw"
proof -
  have "\<exists>raw. extracted_text s w url = Some raw \<and> length_test s raw
             \<and> dict_get d ''text'' = PStr (clean_text raw)"
  proof (cases s)
    case Newspaper
    with assms have "scrape_with_newspaper w url = Some d" by simp
    from newspaper_text [OF this] show ?thesis unfolding Newspaper .
  next
    case Trafilatura
    with assms have "scrape_with_trafilatura w url = Some d" by simp
    from trafilatura_text [OF this] show ?thesis unfolding Trafilatura .
  next
    case Readability
    with assms have "scrape_with_readability w url = Some d" by simp
    from readability_text [OF this] show ?thesis unfolding Readability .
  next
    case BeautifulSoup
    with assms have "scrape_with_beautifulsoup w url = Some d" by simp
    from beautifulsoup_text [OF this] show ?thesis unfolding BeautifulSoup .
  next
    case Selenium
    with assms have "scrape_with_selenium w url = Some d" by simp
    from selenium_text [OF this] show ?thesis unfolding Selenium .
  next
    case Raw
    with assms have "scrape_raw w url = Some d" by simp
    from raw_text [OF this] show ?thesis unfolding Raw .
  qed
  then show ?thesis using length_clean_text by blast
qed

theorem stored_text_is_normalized_extracted_text_witness:
  "extracted_text BeautifulSoup teaser_world ''https://ex.com/article''
     = Some ''Please Register to continue reading this short article..''
   \<and> length_test BeautifulSoup ''Please Register to continue reading this short article..''
   \<and> dict_get (the (run_strategy BeautifulSoup teaser_world ''https://ex.com/article'')) ''text''
       = PStr (clean_text ''Please Register to continue reading this short article..'')
   \<and> extracted_text Newspaper news_world ''https://ex.com/article'' = Some story
   \<and> length_test Newspaper story
   \<and> dict_get (the (run_strategy Newspaper news_world ''https://ex.com/article'')) ''text''
       = PStr (clean_text story)"
proof -
  let ?url = "''https://ex.com/article''"
  have b: "run_strategy BeautifulSoup teaser_world ?url
             = Some (the (run_strategy BeautifulSoup teaser_world ?url))" by code_simp
  have eb: "extracted_text BeautifulSoup teaser_world ?url
             = Some ''Please Register to continue reading this short article..''" by code_simp
  have n: "run_strategy Newspaper news_world ?url
             = Some (the (run_strategy Newspaper news_world ?url))" by code_simp
  have en: "extracted_text Newspaper news_world ?url = Some story" by code_simp
  from stored_text_is_normalized_extracted_text [OF b] stored_text_is_normalized_extracted_text [OF n]
    eb en
  show ?thesis by auto
qed

subsection \<open>Responses with an error status\<close>

text \<open>
  C9: a fetch that returns a non-2xx status should make the strategy return nothing.
  Strategy 4 calls \<open>raise_for_status\<close>; strategies 3 and 6 never look at the status. On a
  response with status 404 both build an accepted result from the body of the error
  page, while strategy 4 returns nothing.
\<close>

theorem error_page_accepted:
  "readability_get not_found_world ''https://ex.com/article'' = Response 404 not_found_html
   \<and> raw_get not_found_world ''https://ex.com/article'' = Response 404 not_found_html
   \<and> accepted (scrape_with_readability not_found_world ''https://ex.com/article'')
   \<and> accepted (scrape_raw not_found_world ''https://ex.com/article'')
   \<and> dict_get (the (scrape_raw not_found_world ''https://ex.com/article'')) ''title''
       = PStr ''404 Not Found''
   \<and> scrape_with_beautifulsoup not_found_world ''https://ex.com/article'' = None"
  by code_simp

subsection \<open>The raw fallback\<close>


lemma raw_fallback_fails_on_rejected_page:
  "raw_get rejecting_world ''https://ex.com/article'' = Response 200 bare_html
   \<and> scrape_raw rejecting_world ''https://ex.com/article'' = None"
  by code_simp

text \<open>\<open>extract_metadata\<close> raises only in the image loop, on an address \<open>urljoin\<close>
  rejects.\<close>

lemma add_images_total:
  "\<forall>img \<in> set imgs. \<forall>src. attr_get img ''src'' = Some src \<longrightarrow> isl (uj url src) = False \<Longrightarrow>
   \<exists>image_list. add_images uj url imgs acc = Inr image_list"
proof (induction imgs arbitrary: acc)
  case Nil
  then show ?case by simp
next
  case (Cons img imgs)
  then show ?case
    by (cases "attr_get img ''src''") (auto split: sum.splits)
qed

lemma extract_metadata_total:
  assumes "\<forall>img \<in> set (take 10 (find_all soup (Named [''img''], [(''src'', Present)]))).
             \<forall>src. attr_get img ''src'' = Some src \<longrightarrow> isl (uj url src) = False"
  shows "\<exists>m. extract_metadata uj soup url = Inr m"
proof -
  from assms obtain image_list
    where "extract_images uj soup url = Inr image_list"
    unfolding extract_images_def
    using add_images_total
            [where uj = uj and url = url
               and imgs = "take 10 (find_all soup (Named [''img''], [(''src'', Present)]))"]
    by blast
  then show ?thesis by (simp add: extract_metadata_def)
qed



section \<open>Properties of the Orchestrator and the handler\<close>

subsection \<open>Order of the strategies\<close>






subsection \<open>Validation of the URL\<close>




subsection \<open>Encoding of the result\<close>

text \<open>
  C5: an accepted result should be answered with HTTP 200, every set-valued field
  converted to a list. The conversion loop returns in its first iteration, so only the
  first field (\<open>method\<close>) is examined. The result of strategy 1 carries
  \<open>article.images\<close>, a set, under \<open>images\<close>; it reaches \<open>jsonify\<close> unconverted, and the
  handler answers 500.
\<close>

theorem set_valued_field_not_converted:
  "accepted (scrape_with_newspaper news_world ''https://ex.com/article'')
   \<and> dict_get (the (scrape_with_newspaper news_world ''https://ex.com/article'')) ''images''
       = PSet [PStr ''https://ex.com/pics/a.jpg'']
   \<and> scrape news_world (Some ''https://ex.com/article'') =
       ((500, [(''error'', PStr ''Object of type set is not JSON serializable''),
               (''success'', PBool False)]), [Newspaper])"
  by code_simp

text \<open>With the images as a list the same run is answered with 200.\<close>

lemma listed_images_encoded:
  "fst (fst (scrape listed_world (Some ''https://ex.com/article''))) = 200
   \<and> dict_get (snd (fst (scrape listed_world (Some ''https://ex.com/article'')))) ''method''
       = PStr ''newspaper3k''"
  by code_simp

end
